theory Spec2Isabelle
  imports Main
begin

section \<open>Exceptions of the route module\<close>

text \<open>
  The handlers of \<^verbatim>\<open>views/assignment_view.py\<close> select an \<^verbatim>\<open>except\<close> clause by
  \<^verbatim>\<open>isinstance\<close>. The exception classes are declared outside this module, so a raised
  exception carries the list of classes it is an instance of (the method resolution
  order of its type) and the text \<^verbatim>\<open>str(e)\<close> yields. No subclass relation between the
  classes is assumed.
\<close>

datatype exc_class =
    SQLAlchemyError
  | UUIDValidationException
  | CourseNotFoundException
  | AssignmentException
  | AssignmentNotFoundException
  | AssignmentGameFieldException
  | AssignmentPositionError
  | AssignmentElementFieldError
  | HTTPException_class
  | TypeError
  | ValueError
  | Exception_class
  | OtherClass string

datatype exception =
    HTTPException nat string
  | Raised "exc_class list" string

fun exc_mro :: "exception \<Rightarrow> exc_class list" where
  "exc_mro (HTTPException st d) = [HTTPException_class, Exception_class]"
| "exc_mro (Raised mro msg) = mro"

definition isinstance :: "exception \<Rightarrow> exc_class \<Rightarrow> bool" where
  "isinstance e c = (c \<in> set (exc_mro e))"

fun str_nat :: "nat \<Rightarrow> string" where
  "str_nat n =
     (if n < 10 then [char_of (48 + n)]
      else str_nat (n div 10) @ [char_of (48 + n mod 10)])"

declare str_nat.simps [simp del]

fun str_exc :: "exception \<Rightarrow> string" where
  "str_exc (HTTPException st d) = str_nat st @ '': '' @ d"
| "str_exc (Raised mro msg) = msg"

section \<open>The \<^verbatim>\<open>%\<close> operator on the module's format strings\<close>

text \<open>
  \<^verbatim>\<open>fmt % args\<close> with the arguments already converted by \<^verbatim>\<open>str\<close>: a single non-tuple
  operand is the one-element list. The module's format strings use the conversion
  \<^verbatim>\<open>%s\<close> only; \<^verbatim>\<open>%%\<close> is the literal percent sign. Too few arguments and arguments
  left over both raise \<^verbatim>\<open>TypeError\<close>, as in Python.
\<close>

fun py_format :: "string \<Rightarrow> string list \<Rightarrow> exception + string" where
  "py_format [] args =
     (if args = [] then Inr []
      else Inl (Raised [TypeError, Exception_class]
                  ''not all arguments converted during string formatting''))"
| "py_format [c] args =
     (if c = CHR ''%'' then Inl (Raised [ValueError, Exception_class] ''incomplete format'')
      else map_sum id ((#) c) (py_format [] args))"
| "py_format (c # d # fmt) args =
     (if c \<noteq> CHR ''%'' then map_sum id ((#) c) (py_format (d # fmt) args)
      else if d = CHR ''%'' then map_sum id ((#) CHR ''%'') (py_format fmt args)
      else if d = CHR ''s'' then
        (case args of
           [] \<Rightarrow> Inl (Raised [TypeError, Exception_class]
                       ''not enough arguments for format string'')
         | a # as \<Rightarrow> map_sum id ((@) a) (py_format fmt as))
      else Inl (Raised [ValueError, Exception_class] ''unsupported format character''))"

section \<open>Handlers as computations with effects\<close>

text \<open>
  A handler runs on a state that holds the world its collaborators act on (database,
  request, token), the chronological list of the calls and log records it made, and the
  injected \<^verbatim>\<open>Response\<close> object. It ends with a value or with a raised exception.
  A collaborator (\<^verbatim>\<open>only_teacher\<close>, a method of \<^verbatim>\<open>AssignmentsService\<close> or of
  \<^verbatim>\<open>AssignmentRepo\<close>) is a parameter: a function from the world to its outcome and the
  world it leaves.
\<close>

datatype log_arg =
    Str string
  | Exc exception

datatype event =
    Await string
  | LogInfo log_arg
  | LogError log_arg

record Response =
  status_code :: "nat option"

record 'w hstate =
  world :: 'w
  events :: "event list"
  response :: Response

type_synonym ('a, 'w) handler = "'w hstate \<Rightarrow> (exception + 'a) \<times> 'w hstate"

type_synonym ('a, 'w) collaborator = "'w \<Rightarrow> (exception + 'a) \<times> 'w"

definition hreturn :: "'a \<Rightarrow> ('a, 'w) handler" where
  "hreturn v = (\<lambda>s. (Inr v, s))"

definition hraise :: "exception \<Rightarrow> ('a, 'w) handler" where
  "hraise e = (\<lambda>s. (Inl e, s))"

definition hbind :: "('a, 'w) handler \<Rightarrow> ('a \<Rightarrow> ('b, 'w) handler) \<Rightarrow> ('b, 'w) handler" where
  "hbind m f = (\<lambda>s. case m s of (Inl e, s') \<Rightarrow> (Inl e, s') | (Inr v, s') \<Rightarrow> f v s')"

fun find_clause ::
  "exception \<Rightarrow> (exc_class \<times> (exception \<Rightarrow> ('a, 'w) handler)) list
     \<Rightarrow> (exception \<Rightarrow> ('a, 'w) handler) option" where
  "find_clause e [] = None"
| "find_clause e ((c, h) # clauses) =
     (if isinstance e c then Some h else find_clause e clauses)"

text \<open>
  \<^verbatim>\<open>try: body except C1 as e: h1 except C2 as e: h2 ...\<close>: the first clause whose class
  the exception is an instance of runs; an exception no clause matches, and one raised
  by a clause, leave the statement.
\<close>

definition try_except ::
  "('a, 'w) handler \<Rightarrow> (exc_class \<times> (exception \<Rightarrow> ('a, 'w) handler)) list \<Rightarrow> ('a, 'w) handler" where
  "try_except body clauses =
     (\<lambda>s. case body s of
            (Inr v, s') \<Rightarrow> (Inr v, s')
          | (Inl e, s') \<Rightarrow>
              (case find_clause e clauses of
                 None \<Rightarrow> (Inl e, s')
               | Some h \<Rightarrow> h e s'))"

definition await :: "string \<Rightarrow> ('a, 'w) collaborator \<Rightarrow> ('a, 'w) handler" where
  "await name f =
     (\<lambda>s. case f (world s) of
            (r, w') \<Rightarrow> (r, s\<lparr>world := w', events := events s @ [Await name]\<rparr>))"

definition format :: "string \<Rightarrow> string list \<Rightarrow> (string, 'w) handler" where
  "format fmt args = (\<lambda>s. (py_format fmt args, s))"

definition set_status_code :: "nat \<Rightarrow> (unit, 'w) handler" where
  "set_status_code n = (\<lambda>s. (Inr (), s\<lparr>response := (response s)\<lparr>status_code := Some n\<rparr>\<rparr>))"

subsection \<open>The module logger\<close>

text \<open>
  Modelled from the spec: the class \<^verbatim>\<open>ModuleLoger\<close> of \<^verbatim>\<open>logger/logger_module.py\<close> is
  not part of the module. The spec has every branch log a message before it responds:
  \<^verbatim>\<open>info\<close> and \<^verbatim>\<open>error\<close> record their argument and return. Two calls of the module
  pass the message by the keyword \<^verbatim>\<open>args\<close>; whether \<^verbatim>\<open>info\<close> has a parameter of that
  name is a field of the logger, and the call raises \<^verbatim>\<open>TypeError\<close> when it has not.
\<close>

record ModuleLoger =
  info_has_args_parameter :: bool

definition logger_info :: "log_arg \<Rightarrow> (unit, 'w) handler" where
  "logger_info msg = (\<lambda>s. (Inr (), s\<lparr>events := events s @ [LogInfo msg]\<rparr>))"

definition logger_error :: "log_arg \<Rightarrow> (unit, 'w) handler" where
  "logger_error msg = (\<lambda>s. (Inr (), s\<lparr>events := events s @ [LogError msg]\<rparr>))"

definition logger_info_args :: "ModuleLoger \<Rightarrow> log_arg \<Rightarrow> (unit, 'w) handler" where
  "logger_info_args logger msg =
     (if info_has_args_parameter logger then logger_info msg
      else hraise (Raised [TypeError, Exception_class]
                     ''info() got an unexpected keyword argument: args''))"

section \<open>The handlers\<close>

text \<open>
  Each handler takes the collaborators it calls as its first parameters, then the
  parameters of the source function; the database session is part of the world.
\<close>

definition get_assignments ::
  "(string \<Rightarrow> ('a list, 'w) collaborator) \<Rightarrow> string \<Rightarrow> ('a list, 'w) handler" where
  "get_assignments get_course_assignments course_uuid =
     hbind
       (try_except
          (hbind (format ''Try to get all assignments of course %s'' [course_uuid]) (\<lambda>msg.
           hbind (logger_info (Str msg)) (\<lambda>_.
           await ''AssignmentsService.get_course_assignments''
             (get_course_assignments course_uuid))))
          [(SQLAlchemyError, \<lambda>e.
              hbind (logger_error (Exc e)) (\<lambda>_.
              hraise (HTTPException 500 ''Database error''))),
           (UUIDValidationException, \<lambda>e.
              hbind (format ''Ask assigment with invalid course uuid: %s'' [course_uuid]) (\<lambda>msg.
              hbind (logger_info (Str msg)) (\<lambda>_.
              hraise (HTTPException 400
                ''UUID of course validation error. UUID should be 32..36 length and UUID must contains only hex symbols.''))))])
       (\<lambda>assignments.
          if assignments \<noteq> [] then
            hbind (format ''Success trying of getting assignments of course %s. Found %s assignments''
                     [course_uuid, str_nat (length assignments)]) (\<lambda>msg.
            hbind (logger_info (Str msg)) (\<lambda>_.
            hbind (set_status_code 201) (\<lambda>_.
            hreturn assignments)))
          else
            hbind (format ''Fail of getting assignments for course %s. Assignments doesn't exists''
                     [course_uuid]) (\<lambda>msg.
            hbind (logger_info (Str msg)) (\<lambda>_.
            hraise (HTTPException 404 ''Assignment not found''))))"

text \<open>
  The creation payload: the handler reads its field \<^verbatim>\<open>course_id\<close> and formats the whole
  object with \<^verbatim>\<open>%s\<close>, which yields \<^verbatim>\<open>str(assignment_in)\<close>.
\<close>

record AssignmentCreate =
  course_id :: string
  str_assignment_in :: string

text \<open>
  The services of \<^verbatim>\<open>create_assignment\<close> and \<^verbatim>\<open>delete_assignment\<close> return an
  assignment object, which is truthy, or \<^verbatim>\<open>None\<close>.
\<close>

definition create_assignment ::
  "('r \<Rightarrow> (unit, 'w) collaborator) \<Rightarrow> (AssignmentCreate \<Rightarrow> ('a option, 'w) collaborator)
     \<Rightarrow> AssignmentCreate \<Rightarrow> 'r \<Rightarrow> ('a, 'w) handler" where
  "create_assignment only_teacher service_create_assignment assignment_in request =
     hbind (await ''only_teacher'' (only_teacher request)) (\<lambda>_.
     hbind
       (try_except
          (hbind (format ''Try to create assignment with data %s''
                    [str_assignment_in assignment_in]) (\<lambda>msg.
           hbind (logger_info (Str msg)) (\<lambda>_.
           await ''AssignmentsService.create_assignment''
             (service_create_assignment assignment_in))))
          [(UUIDValidationException, \<lambda>e.
              hbind (format ''Failed to create assignment with course uuid: %s''
                       [course_id assignment_in]) (\<lambda>msg.
              hbind (logger_info (Str msg)) (\<lambda>_.
              hraise (HTTPException 400
                ''UUID of course validation error. UUID should be 32..36 length and UUID must contains only hex symbols.'')))),
           (CourseNotFoundException, \<lambda>e.
              hbind (format ''Failed to create assignment with doesn't existing course uuid: %s''
                       [course_id assignment_in]) (\<lambda>msg.
              hbind (logger_info (Str msg)) (\<lambda>_.
              hraise (HTTPException 400
                (''Course with id '' @ course_id assignment_in
                   @ '' not found, can't create assignment''))))),
           (AssignmentGameFieldException, \<lambda>e. hraise (HTTPException 400 (str_exc e))),
           (AssignmentPositionError, \<lambda>e. hraise (HTTPException 400 (str_exc e))),
           (SQLAlchemyError, \<lambda>e.
              hbind (logger_error (Exc e)) (\<lambda>_.
              hraise (HTTPException 500 ''Database error'')))])
       (\<lambda>assignment.
          case assignment of
            Some a \<Rightarrow> hreturn a
          | None \<Rightarrow>
              hbind (format ''Assignment ( %s ) not created''
                       [str_assignment_in assignment_in]) (\<lambda>msg.
              hbind (logger_error (Str msg)) (\<lambda>_.
              hraise (HTTPException 500 ''Internal server error'')))))"

record Assignment =
  assignment_id :: string

definition delete_assignment ::
  "ModuleLoger \<Rightarrow> ('r \<Rightarrow> (unit, 'w) collaborator)
     \<Rightarrow> (string \<Rightarrow> (Assignment option, 'w) collaborator)
     \<Rightarrow> string \<Rightarrow> 'r \<Rightarrow> ((string \<times> string) list, 'w) handler" where
  "delete_assignment logger only_teacher service_delete_assignment assignment_uuid request =
     hbind (await ''only_teacher'' (only_teacher request)) (\<lambda>_.
     hbind
       (try_except
          (hbind (format ''Try to delete assignment with uuid %s'' [assignment_uuid]) (\<lambda>msg.
           hbind (logger_info (Str msg)) (\<lambda>_.
           await ''AssignmentsService.delete_assignment''
             (service_delete_assignment assignment_uuid))))
          [(SQLAlchemyError, \<lambda>e.
              hbind (logger_error (Exc e)) (\<lambda>_.
              hraise (HTTPException 500 ''Database error''))),
           (UUIDValidationException, \<lambda>e.
              hbind (format ''Failed to delete assignment with invalid uuid %s''
                       [assignment_uuid]) (\<lambda>msg.
              hbind (logger_info_args logger (Str msg)) (\<lambda>_.
              hraise (HTTPException 400
                ''UUID of course validation error. UUID should be 32..36 length and UUID must contains only hex symbols.'')))),
           (AssignmentNotFoundException, \<lambda>e.
              hbind (format ''Failed to delete assignment with uuid %s. Assignment not found''
                       [assignment_uuid]) (\<lambda>msg.
              hbind (logger_info (Str msg)) (\<lambda>_.
              hraise (HTTPException 404
                (''Assignment with id '' @ assignment_uuid @ '' not found''))))),
           (AssignmentException, \<lambda>e.
              hbind (logger_error (Exc e)) (\<lambda>_.
              hraise (HTTPException 500 ''Internal server error'')))])
       (\<lambda>assignment.
          case assignment of
            Some a \<Rightarrow>
              hbind (set_status_code 201) (\<lambda>_.
              hbind (format ''Successfully deleted assignment with uuid %s''
                       [assignment_uuid]) (\<lambda>msg.
              hbind (logger_info (Str msg)) (\<lambda>_.
              hreturn [(''detail'',
                ''Assigment with id'' @ '' '' @ assignment_id a @ '' successfully deleted'')])))
          | None \<Rightarrow>
              hbind (format ''Failed to delete assignment with uuid'' [assignment_uuid]) (\<lambda>msg.
              hbind (logger_info (Str msg)) (\<lambda>_.
              hraise (HTTPException 500 ''Internal server error'')))))"

definition get_total_info_assignment ::
  "ModuleLoger \<Rightarrow> (string \<Rightarrow> (('a \<times> 'b) option, 'w) collaborator)
     \<Rightarrow> string \<Rightarrow> ('a \<times> 'b, 'w) handler" where
  "get_total_info_assignment logger total_info_about_assignment assignment_uuid =
     try_except
       (hbind (await ''AssignmentsService.total_info_about_assignment''
                 (total_info_about_assignment assignment_uuid)) (\<lambda>data.
          case data of
            Some (assignment, elements) \<Rightarrow> hreturn (assignment, elements)
          | None \<Rightarrow> hraise (HTTPException 404 ''Assignment not found'')))
       [(SQLAlchemyError, \<lambda>e.
           hbind (logger_error (Exc e)) (\<lambda>_.
           hraise (HTTPException 500 ''Database error''))),
        (UUIDValidationException, \<lambda>e.
           hbind (format ''Failed to delete assignment with invalid uuid %s''
                    [assignment_uuid]) (\<lambda>msg.
           hbind (logger_info_args logger (Str msg)) (\<lambda>_.
           hraise (HTTPException 400
             ''UUID of course validation error. UUID should be 32..36 length and UUID must contains only hex symbols.'')))),
        (AssignmentNotFoundException, \<lambda>e.
           hbind (format ''Failed to delete assignment with uuid %s. Assignment not found''
                    [assignment_uuid]) (\<lambda>msg.
           hbind (logger_info (Str msg)) (\<lambda>_.
           hraise (HTTPException 404
             (''Assignment with id '' @ assignment_uuid @ '' not found''))))),
        (AssignmentException, \<lambda>e.
           hbind (logger_error (Exc e)) (\<lambda>_.
           hraise (HTTPException 500 ''Internal server error'')))]"

definition add_elements ::
  "('e list \<Rightarrow> ('a, 'w) collaborator) \<Rightarrow> 'e list \<Rightarrow> ('a, 'w) handler" where
  "add_elements service_add_elements element_list =
     try_except
       (await ''AssignmentsService.add_elements'' (service_add_elements element_list))
       [(AssignmentElementFieldError, \<lambda>e.
           hraise (HTTPException 400
             ''You cannot add this elements. Some of them go beyond the limits of the playing field or are placed on already occupied squares. Or assignment doesn't exist.''))]"

definition get_actions ::
  "(string \<Rightarrow> ('a, 'w) collaborator) \<Rightarrow> string \<Rightarrow> ('a, 'w) handler" where
  "get_actions get_assignment_actions assignment_uuid =
     await ''AssignmentRepo.get_assignment_actions'' (get_assignment_actions assignment_uuid)"

definition add_actions ::
  "(int list \<Rightarrow> string \<Rightarrow> ('a, 'w) collaborator) \<Rightarrow> int list \<Rightarrow> string \<Rightarrow> ('a, 'w) handler" where
  "add_actions repo_add_actions actions_id assignment_uuid =
     await ''AssignmentRepo.add_actions'' (repo_add_actions actions_id assignment_uuid)"

section \<open>The fixed response texts\<close>

abbreviation uuid_validation_detail :: string where
  "uuid_validation_detail \<equiv>
     ''UUID of course validation error. UUID should be 32..36 length and UUID must contains only hex symbols.''"

abbreviation placement_detail :: string where
  "placement_detail \<equiv>
     ''You cannot add this elements. Some of them go beyond the limits of the playing field or are placed on already occupied squares. Or assignment doesn't exist.''"

section \<open>The element service behind \<^verbatim>\<open>add_elements\<close>\<close>

text \<open>
  Modelled from the spec: \<^verbatim>\<open>AssignmentsService.add_elements\<close> and the schema
  \<^verbatim>\<open>GameElementCreate\<close> are not part of the module. By the spec a game element belongs
  to an assignment and has a position on that assignment's bounded play field; a
  position must stay within the field bounds and must not collide with an occupied
  position. A batch with an element that is out of bounds, collides, or names a missing
  assignment is refused as a whole; an all-valid batch is inserted.
\<close>

record GameElementCreate =
  element_assignment_id :: string
  pos_x :: int
  pos_y :: int

record game_db =
  play_fields :: "(string \<times> int \<times> int) list"
  placed :: "GameElementCreate list"

definition square :: "GameElementCreate \<Rightarrow> string \<times> int \<times> int" where
  "square el = (element_assignment_id el, pos_x el, pos_y el)"

definition in_bounds :: "game_db \<Rightarrow> GameElementCreate \<Rightarrow> bool" where
  "in_bounds db el =
     (case map_of (play_fields db) (element_assignment_id el) of
        None \<Rightarrow> False
      | Some (width, height) \<Rightarrow>
          0 \<le> pos_x el \<and> pos_x el < width \<and> 0 \<le> pos_y el \<and> pos_y el < height)"

definition occupied :: "game_db \<Rightarrow> GameElementCreate \<Rightarrow> bool" where
  "occupied db el = (square el \<in> set (map square (placed db)))"

fun place_all :: "game_db \<Rightarrow> GameElementCreate list \<Rightarrow> game_db option" where
  "place_all db [] = Some db"
| "place_all db (el # els) =
     (if in_bounds db el \<and> \<not> occupied db el
      then place_all (db\<lparr>placed := placed db @ [el]\<rparr>) els
      else None)"

definition AssignmentsService_add_elements ::
  "GameElementCreate list \<Rightarrow> (GameElementCreate list, game_db) collaborator" where
  "AssignmentsService_add_elements element_list db =
     (case place_all db element_list of
        None \<Rightarrow>
          (Inl (Raised [AssignmentElementFieldError, AssignmentException, Exception_class]
                  ''element cannot be placed''), db)
      | Some db' \<Rightarrow> (Inr element_list, db'))"

section \<open>Concrete collaborators and states\<close>

definition s0 :: "unit hstate" where
  "s0 = \<lparr>world = (), events = [], response = \<lparr>status_code = None\<rparr>\<rparr>"

definition teacher :: "unit \<Rightarrow> (unit, 'w) collaborator" where
  "teacher request w = (Inr (), w)"

definition not_teacher :: "unit \<Rightarrow> (unit, 'w) collaborator" where
  "not_teacher request w = (Inl (HTTPException 403 ''Forbidden''), w)"

definition raising :: "exception \<Rightarrow> 'k \<Rightarrow> ('a, 'w) collaborator" where
  "raising e k w = (Inl e, w)"

definition returning :: "'a \<Rightarrow> 'k \<Rightarrow> ('a, 'w) collaborator" where
  "returning v k w = (Inr v, w)"

definition db_error :: exception where
  "db_error = Raised [OtherClass ''OperationalError'', SQLAlchemyError, Exception_class]
                ''connection refused''"

definition domain_error :: exception where
  "domain_error = Raised [AssignmentException, Exception_class] ''assignment is locked''"

definition not_found_error :: exception where
  "not_found_error =
     Raised [AssignmentNotFoundException, AssignmentException, Exception_class] ''no such row''"

definition course_error :: exception where
  "course_error = Raised [CourseNotFoundException, Exception_class] ''no such course''"

definition field_error :: "string \<Rightarrow> exception" where
  "field_error msg =
     Raised [AssignmentGameFieldException, AssignmentException, Exception_class] msg"

definition payload :: AssignmentCreate where
  "payload = \<lparr>course_id = ''0123456789abcdef0123456789abcdef'',
               str_assignment_in = ''name='maze' course_id='0123456789abcdef0123456789abcdef' ''\<rparr>"

definition db0 :: game_db where
  "db0 = \<lparr>play_fields = [(''a1'', 3, 3)],
           placed = [\<lparr>element_assignment_id = ''a1'', pos_x = 0, pos_y = 0\<rparr>]\<rparr>"

definition g0 :: "game_db hstate" where
  "g0 = \<lparr>world = db0, events = [], response = \<lparr>status_code = None\<rparr>\<rparr>"

definition element_at :: "int \<Rightarrow> int \<Rightarrow> GameElementCreate" where
  "element_at x y = \<lparr>element_assignment_id = ''a1'', pos_x = x, pos_y = y\<rparr>"

section \<open>What each handler does with its collaborators' outcomes\<close>

lemmas handler_defs = hbind_def hreturn_def hraise_def try_except_def await_def format_def
  set_status_code_def logger_info_def logger_error_def logger_info_args_def

subsection \<open>\<^verbatim>\<open>get_assignments\<close>\<close>

lemma get_assignments_returns:
  assumes "get_course_assignments course_uuid (world s) = (Inr assignments, w')"
  shows "get_assignments get_course_assignments course_uuid s =
     (if assignments \<noteq> [] then
        (Inr assignments,
         s\<lparr>world := w',
           events := events s @
             [LogInfo (Str (''Try to get all assignments of course '' @ course_uuid)),
              Await ''AssignmentsService.get_course_assignments'',
              LogInfo (Str (''Success trying of getting assignments of course '' @ course_uuid
                 @ ''. Found '' @ str_nat (length assignments) @ '' assignments''))],
           response := (response s)\<lparr>status_code := Some 201\<rparr>\<rparr>)
      else
        (Inl (HTTPException 404 ''Assignment not found''),
         s\<lparr>world := w',
           events := events s @
             [LogInfo (Str (''Try to get all assignments of course '' @ course_uuid)),
              Await ''AssignmentsService.get_course_assignments'',
              LogInfo (Str (''Fail of getting assignments for course '' @ course_uuid
                 @ ''. Assignments doesn't exists''))]\<rparr>))"
  using assms by (simp add: get_assignments_def handler_defs)

lemma get_assignments_raises:
  assumes "get_course_assignments course_uuid (world s) = (Inl e, w')"
  shows "get_assignments get_course_assignments course_uuid s =
     (if isinstance e SQLAlchemyError then
        (Inl (HTTPException 500 ''Database error''),
         s\<lparr>world := w',
           events := events s @
             [LogInfo (Str (''Try to get all assignments of course '' @ course_uuid)),
              Await ''AssignmentsService.get_course_assignments'',
              LogError (Exc e)]\<rparr>)
      else if isinstance e UUIDValidationException then
        (Inl (HTTPException 400 uuid_validation_detail),
         s\<lparr>world := w',
           events := events s @
             [LogInfo (Str (''Try to get all assignments of course '' @ course_uuid)),
              Await ''AssignmentsService.get_course_assignments'',
              LogInfo (Str (''Ask assigment with invalid course uuid: '' @ course_uuid))]\<rparr>)
      else
        (Inl e,
         s\<lparr>world := w',
           events := events s @
             [LogInfo (Str (''Try to get all assignments of course '' @ course_uuid)),
              Await ''AssignmentsService.get_course_assignments'']\<rparr>))"
  using assms by (simp add: get_assignments_def handler_defs)

subsection \<open>\<^verbatim>\<open>create_assignment\<close>\<close>

lemma create_assignment_denied:
  assumes "only_teacher request (world s) = (Inl e, wt)"
  shows "create_assignment only_teacher service_create_assignment assignment_in request s =
     (Inl e, s\<lparr>world := wt, events := events s @ [Await ''only_teacher'']\<rparr>)"
  using assms by (simp add: create_assignment_def handler_defs)

lemma create_assignment_returns:
  assumes "only_teacher request (world s) = (Inr u, wt)"
    and "service_create_assignment assignment_in wt = (Inr assignment, ws)"
  shows "create_assignment only_teacher service_create_assignment assignment_in request s =
     (case assignment of
        Some a \<Rightarrow>
          (Inr a,
           s\<lparr>world := ws,
             events := events s @
               [Await ''only_teacher'',
                LogInfo (Str (''Try to create assignment with data ''
                   @ str_assignment_in assignment_in)),
                Await ''AssignmentsService.create_assignment'']\<rparr>)
      | None \<Rightarrow>
          (Inl (HTTPException 500 ''Internal server error''),
           s\<lparr>world := ws,
             events := events s @
               [Await ''only_teacher'',
                LogInfo (Str (''Try to create assignment with data ''
                   @ str_assignment_in assignment_in)),
                Await ''AssignmentsService.create_assignment'',
                LogError (Str (''Assignment ( '' @ str_assignment_in assignment_in
                   @ '' ) not created''))]\<rparr>))"
  using assms by (simp add: create_assignment_def handler_defs split: option.split)

lemma create_assignment_raises:
  assumes "only_teacher request (world s) = (Inr u, wt)"
    and "service_create_assignment assignment_in wt = (Inl e, ws)"
  shows "create_assignment only_teacher service_create_assignment assignment_in request s =
     (let called =
            [Await ''only_teacher'',
             LogInfo (Str (''Try to create assignment with data ''
                @ str_assignment_in assignment_in)),
             Await ''AssignmentsService.create_assignment'']
      in
      if isinstance e UUIDValidationException then
        (Inl (HTTPException 400 uuid_validation_detail),
         s\<lparr>world := ws,
           events := events s @ called @
             [LogInfo (Str (''Failed to create assignment with course uuid: ''
                @ course_id assignment_in))]\<rparr>)
      else if isinstance e CourseNotFoundException then
        (Inl (HTTPException 400
           (''Course with id '' @ course_id assignment_in
              @ '' not found, can't create assignment'')),
         s\<lparr>world := ws,
           events := events s @ called @
             [LogInfo (Str (''Failed to create assignment with doesn't existing course uuid: ''
                @ course_id assignment_in))]\<rparr>)
      else if isinstance e AssignmentGameFieldException
              \<or> isinstance e AssignmentPositionError then
        (Inl (HTTPException 400 (str_exc e)),
         s\<lparr>world := ws, events := events s @ called\<rparr>)
      else if isinstance e SQLAlchemyError then
        (Inl (HTTPException 500 ''Database error''),
         s\<lparr>world := ws, events := events s @ called @ [LogError (Exc e)]\<rparr>)
      else
        (Inl e, s\<lparr>world := ws, events := events s @ called\<rparr>))"
  using assms by (simp add: create_assignment_def handler_defs)

subsection \<open>\<^verbatim>\<open>delete_assignment\<close>\<close>

lemma delete_assignment_denied:
  assumes "only_teacher request (world s) = (Inl e, wt)"
  shows "delete_assignment logger only_teacher service_delete_assignment assignment_uuid request s =
     (Inl e, s\<lparr>world := wt, events := events s @ [Await ''only_teacher'']\<rparr>)"
  using assms by (simp add: delete_assignment_def handler_defs)

lemma delete_assignment_returns:
  assumes "only_teacher request (world s) = (Inr u, wt)"
    and "service_delete_assignment assignment_uuid wt = (Inr assignment, ws)"
  shows "delete_assignment logger only_teacher service_delete_assignment assignment_uuid request s =
     (case assignment of
        Some a \<Rightarrow>
          (Inr [(''detail'',
                 ''Assigment with id '' @ assignment_id a @ '' successfully deleted'')],
           s\<lparr>world := ws,
             events := events s @
               [Await ''only_teacher'',
                LogInfo (Str (''Try to delete assignment with uuid '' @ assignment_uuid)),
                Await ''AssignmentsService.delete_assignment'',
                LogInfo (Str (''Successfully deleted assignment with uuid ''
                   @ assignment_uuid))],
             response := (response s)\<lparr>status_code := Some 201\<rparr>\<rparr>)
      | None \<Rightarrow>
          (Inl (Raised [TypeError, Exception_class]
                  ''not all arguments converted during string formatting''),
           s\<lparr>world := ws,
             events := events s @
               [Await ''only_teacher'',
                LogInfo (Str (''Try to delete assignment with uuid '' @ assignment_uuid)),
                Await ''AssignmentsService.delete_assignment'']\<rparr>))"
  using assms by (simp add: delete_assignment_def handler_defs split: option.split)

lemma delete_assignment_raises:
  assumes "only_teacher request (world s) = (Inr u, wt)"
    and "service_delete_assignment assignment_uuid wt = (Inl e, ws)"
  shows "delete_assignment logger only_teacher service_delete_assignment assignment_uuid request s =
     (let called =
            [Await ''only_teacher'',
             LogInfo (Str (''Try to delete assignment with uuid '' @ assignment_uuid)),
             Await ''AssignmentsService.delete_assignment'']
      in
      if isinstance e SQLAlchemyError then
        (Inl (HTTPException 500 ''Database error''),
         s\<lparr>world := ws, events := events s @ called @ [LogError (Exc e)]\<rparr>)
      else if isinstance e UUIDValidationException then
        (if info_has_args_parameter logger then
           (Inl (HTTPException 400 uuid_validation_detail),
            s\<lparr>world := ws,
              events := events s @ called @
                [LogInfo (Str (''Failed to delete assignment with invalid uuid ''
                   @ assignment_uuid))]\<rparr>)
         else
           (Inl (Raised [TypeError, Exception_class]
                   ''info() got an unexpected keyword argument: args''),
            s\<lparr>world := ws, events := events s @ called\<rparr>))
      else if isinstance e AssignmentNotFoundException then
        (Inl (HTTPException 404 (''Assignment with id '' @ assignment_uuid @ '' not found'')),
         s\<lparr>world := ws,
           events := events s @ called @
             [LogInfo (Str (''Failed to delete assignment with uuid '' @ assignment_uuid
                @ ''. Assignment not found''))]\<rparr>)
      else if isinstance e AssignmentException then
        (Inl (HTTPException 500 ''Internal server error''),
         s\<lparr>world := ws, events := events s @ called @ [LogError (Exc e)]\<rparr>)
      else
        (Inl e, s\<lparr>world := ws, events := events s @ called\<rparr>))"
  using assms by (simp add: delete_assignment_def handler_defs)

subsection \<open>\<^verbatim>\<open>get_total_info_assignment\<close>\<close>

lemma get_total_info_assignment_returns:
  assumes "total_info_about_assignment assignment_uuid (world s) = (Inr data, w')"
  shows "get_total_info_assignment logger total_info_about_assignment assignment_uuid s =
     (case data of
        Some (assignment, elements) \<Rightarrow> Inr (assignment, elements)
      | None \<Rightarrow> Inl (HTTPException 404 ''Assignment not found''),
      s\<lparr>world := w',
        events := events s @ [Await ''AssignmentsService.total_info_about_assignment'']\<rparr>)"
  using assms
  by (simp add: get_total_info_assignment_def handler_defs isinstance_def split: option.split)

lemma get_total_info_assignment_raises:
  assumes "total_info_about_assignment assignment_uuid (world s) = (Inl e, w')"
  shows "get_total_info_assignment logger total_info_about_assignment assignment_uuid s =
     (let called = [Await ''AssignmentsService.total_info_about_assignment'']
      in
      if isinstance e SQLAlchemyError then
        (Inl (HTTPException 500 ''Database error''),
         s\<lparr>world := w', events := events s @ called @ [LogError (Exc e)]\<rparr>)
      else if isinstance e UUIDValidationException then
        (if info_has_args_parameter logger then
           (Inl (HTTPException 400 uuid_validation_detail),
            s\<lparr>world := w',
              events := events s @ called @
                [LogInfo (Str (''Failed to delete assignment with invalid uuid ''
                   @ assignment_uuid))]\<rparr>)
         else
           (Inl (Raised [TypeError, Exception_class]
                   ''info() got an unexpected keyword argument: args''),
            s\<lparr>world := w', events := events s @ called\<rparr>))
      else if isinstance e AssignmentNotFoundException then
        (Inl (HTTPException 404 (''Assignment with id '' @ assignment_uuid @ '' not found'')),
         s\<lparr>world := w',
           events := events s @ called @
             [LogInfo (Str (''Failed to delete assignment with uuid '' @ assignment_uuid
                @ ''. Assignment not found''))]\<rparr>)
      else if isinstance e AssignmentException then
        (Inl (HTTPException 500 ''Internal server error''),
         s\<lparr>world := w', events := events s @ called @ [LogError (Exc e)]\<rparr>)
      else
        (Inl e, s\<lparr>world := w', events := events s @ called\<rparr>))"
  using assms by (simp add: get_total_info_assignment_def handler_defs)

subsection \<open>\<^verbatim>\<open>add_elements\<close>, \<^verbatim>\<open>get_actions\<close>, \<^verbatim>\<open>add_actions\<close>\<close>

lemma add_elements_returns:
  assumes "service_add_elements element_list (world s) = (Inr r, w')"
  shows "add_elements service_add_elements element_list s =
     (Inr r, s\<lparr>world := w', events := events s @ [Await ''AssignmentsService.add_elements'']\<rparr>)"
  using assms by (simp add: add_elements_def handler_defs)

lemma add_elements_raises:
  assumes "service_add_elements element_list (world s) = (Inl e, w')"
  shows "add_elements service_add_elements element_list s =
     (if isinstance e AssignmentElementFieldError
      then Inl (HTTPException 400 placement_detail) else Inl e,
      s\<lparr>world := w', events := events s @ [Await ''AssignmentsService.add_elements'']\<rparr>)"
  using assms by (simp add: add_elements_def handler_defs)

lemma get_actions_outcome:
  assumes "get_assignment_actions assignment_uuid (world s) = (r, w')"
  shows "get_actions get_assignment_actions assignment_uuid s =
     (r, s\<lparr>world := w', events := events s @ [Await ''AssignmentRepo.get_assignment_actions'']\<rparr>)"
  using assms by (simp add: get_actions_def await_def)

lemma add_actions_outcome:
  assumes "repo_add_actions actions_id assignment_uuid (world s) = (r, w')"
  shows "add_actions repo_add_actions actions_id assignment_uuid s =
     (r, s\<lparr>world := w', events := events s @ [Await ''AssignmentRepo.add_actions'']\<rparr>)"
  using assms by (simp add: add_actions_def await_def)

subsection \<open>The element service\<close>

lemma in_bounds_placed [simp]: "in_bounds (db\<lparr>placed := p\<rparr>) el = in_bounds db el"
  by (simp add: in_bounds_def)

lemma place_all_refuses:
  "(\<exists>el \<in> set els. \<not> in_bounds db el \<or> occupied db el) \<or> \<not> distinct (map square els)
     \<Longrightarrow> place_all db els = None"
proof (induction els arbitrary: db)
  case Nil
  then show ?case by simp
next
  case (Cons a els)
  show ?case
  proof (cases "in_bounds db a \<and> \<not> occupied db a")
    case False
    then show ?thesis by auto
  next
    case True
    let ?db = "db\<lparr>placed := placed db @ [a]\<rparr>"
    from Cons.prems True
    have "(\<exists>el \<in> set els. \<not> in_bounds ?db el \<or> occupied ?db el) \<or> \<not> distinct (map square els)"
      by (auto simp: occupied_def)
    then have "place_all ?db els = None" by (rule Cons.IH)
    with True show ?thesis by simp
  qed
qed

lemma place_all_accepts:
  "\<forall>el \<in> set els. in_bounds db el \<and> \<not> occupied db el \<Longrightarrow> distinct (map square els)
     \<Longrightarrow> place_all db els = Some (db\<lparr>placed := placed db @ els\<rparr>)"
proof (induction els arbitrary: db)
  case Nil
  then show ?case by simp
next
  case (Cons a els)
  let ?db = "db\<lparr>placed := placed db @ [a]\<rparr>"
  have "in_bounds ?db el \<and> \<not> occupied ?db el" if "el \<in> set els" for el
  proof -
    from Cons.prems(2) have "square a \<notin> square ` set els" by simp
    with that have "square el \<noteq> square a" by (metis imageI)
    with Cons.prems(1) that show ?thesis by (simp add: occupied_def)
  qed
  then have "\<forall>el \<in> set els. in_bounds ?db el \<and> \<not> occupied ?db el" by blast
  moreover from Cons.prems have "distinct (map square els)" by simp
  ultimately have "place_all ?db els = Some (?db\<lparr>placed := placed ?db @ els\<rparr>)"
    by (rule Cons.IH)
  with Cons.prems show ?case by simp
qed

section \<open>Facts about single handlers used by several claims\<close>

lemma get_assignments_detail:
  assumes "get_course_assignments course_uuid (world s) = (Inl (Raised mro msg), w')"
    and "fst (get_assignments get_course_assignments course_uuid s) = Inl (HTTPException st d)"
  shows "d \<in> {''Database error'', uuid_validation_detail}"
  using assms by (simp add: get_assignments_raises split: if_splits)

lemma create_assignment_detail:
  assumes "only_teacher request (world s) = (Inr u, wt)"
    and "service_create_assignment assignment_in wt = (Inl (Raised mro msg), ws)"
    and "fst (create_assignment only_teacher service_create_assignment assignment_in request s)
           = Inl (HTTPException st d)"
  shows "if \<not> isinstance (Raised mro msg) UUIDValidationException
            \<and> \<not> isinstance (Raised mro msg) CourseNotFoundException
            \<and> (isinstance (Raised mro msg) AssignmentGameFieldException
                 \<or> isinstance (Raised mro msg) AssignmentPositionError)
         then d = msg
         else d \<in> {uuid_validation_detail,
                    ''Course with id '' @ course_id assignment_in
                      @ '' not found, can't create assignment'',
                    ''Database error''}"
  using assms by (auto simp add: create_assignment_raises Let_def split: if_splits)

lemma delete_assignment_detail:
  assumes "only_teacher request (world s) = (Inr u, wt)"
    and "service_delete_assignment assignment_uuid wt = (Inl (Raised mro msg), ws)"
    and "fst (delete_assignment logger only_teacher service_delete_assignment
                assignment_uuid request s) = Inl (HTTPException st d)"
  shows "d \<in> {''Database error'', uuid_validation_detail,
              ''Assignment with id '' @ assignment_uuid @ '' not found'',
              ''Internal server error''}"
  using assms by (simp add: delete_assignment_raises Let_def split: if_splits)

lemma get_total_info_assignment_detail:
  assumes "total_info_about_assignment assignment_uuid (world s) = (Inl (Raised mro msg), w')"
    and "fst (get_total_info_assignment logger total_info_about_assignment assignment_uuid s)
           = Inl (HTTPException st d)"
  shows "d \<in> {''Database error'', uuid_validation_detail,
              ''Assignment with id '' @ assignment_uuid @ '' not found'',
              ''Internal server error''}"
  using assms by (simp add: get_total_info_assignment_raises Let_def split: if_splits)

lemma add_elements_detail:
  assumes "service_add_elements element_list (world s) = (Inl (Raised mro msg), w')"
    and "fst (add_elements service_add_elements element_list s) = Inl (HTTPException st d)"
  shows "d = placement_detail"
  using assms by (simp add: add_elements_raises split: if_splits)

lemma service_add_elements_refuses:
  assumes "(\<exists>el \<in> set element_list. \<not> in_bounds db el \<or> occupied db el)
             \<or> \<not> distinct (map square element_list)"
  shows "\<exists>e. AssignmentsService_add_elements element_list db = (Inl e, db)
             \<and> isinstance e AssignmentElementFieldError"
  using place_all_refuses [OF assms]
  by (simp add: AssignmentsService_add_elements_def isinstance_def)

lemma service_add_elements_accepts:
  assumes "\<forall>el \<in> set element_list. in_bounds db el \<and> \<not> occupied db el"
    and "distinct (map square element_list)"
  shows "AssignmentsService_add_elements element_list db
           = (Inr element_list, db\<lparr>placed := placed db @ element_list\<rparr>)"
  using place_all_accepts [OF assms] by (simp add: AssignmentsService_add_elements_def)

section \<open>The claims\<close>

text \<open>
  C1. The claim that no error body is the exception's own message fails in
  \<^verbatim>\<open>create_assignment\<close>: its clauses for \<^verbatim>\<open>AssignmentGameFieldException\<close> and
  \<^verbatim>\<open>AssignmentPositionError\<close> answer with \<^verbatim>\<open>detail=str(e)\<close>, so two services that raise
  the same class with different texts get different bodies.
\<close>

theorem raw_exception_text_in_body_counterexample:
  "fst (create_assignment teacher
          (raising (field_error ''width must be positive'')
             :: AssignmentCreate \<Rightarrow> (string option, unit) collaborator) payload () s0)
     = Inl (HTTPException 400 (str_exc (field_error ''width must be positive'')))
   \<and> str_exc (field_error ''width must be positive'') = ''width must be positive''
   \<and> fst (create_assignment teacher
          (raising (field_error ''KeyError: 7'')
             :: AssignmentCreate \<Rightarrow> (string option, unit) collaborator) payload () s0)
     = Inl (HTTPException 400 ''KeyError: 7'')"
  by (simp add: create_assignment_raises [where u = "()" and wt = "()" and ws = "()"]
        teacher_def raising_def field_error_def isinstance_def Let_def)

text \<open>
  C1, as amended. When a handler answers an exception of its service with an
  \<^verbatim>\<open>HTTPException\<close>, the detail is one of the listed fixed texts (two of them with the
  identifier of the request in it), whatever the message of the exception is; the exceptions
  are the two clauses of \<^verbatim>\<open>create_assignment\<close> named above, where the detail is the
  message of the exception.
\<close>

theorem error_detail_fixed_outside_field_and_position_clauses:
  "(get_course_assignments course_uuid (world s) = (Inl (Raised mro msg), w')
      \<and> fst (get_assignments get_course_assignments course_uuid s) = Inl (HTTPException st d)
     \<longrightarrow> d \<in> {''Database error'', uuid_validation_detail})
   \<and> (only_teacher request (world s) = (Inr u, wt)
      \<and> service_create_assignment assignment_in wt = (Inl (Raised mro msg), ws)
      \<and> fst (create_assignment only_teacher service_create_assignment assignment_in request s)
           = Inl (HTTPException st d)
     \<longrightarrow> (if \<not> isinstance (Raised mro msg) UUIDValidationException
            \<and> \<not> isinstance (Raised mro msg) CourseNotFoundException
            \<and> (isinstance (Raised mro msg) AssignmentGameFieldException
                 \<or> isinstance (Raised mro msg) AssignmentPositionError)
         then d = msg
         else d \<in> {uuid_validation_detail,
                    ''Course with id '' @ course_id assignment_in
                      @ '' not found, can't create assignment'',
                    ''Database error''}))
   \<and> (only_teacher request (world s) = (Inr u, wt)
      \<and> service_delete_assignment assignment_uuid wt = (Inl (Raised mro msg), ws)
      \<and> fst (delete_assignment logger only_teacher service_delete_assignment
                assignment_uuid request s) = Inl (HTTPException st d)
     \<longrightarrow> d \<in> {''Database error'', uuid_validation_detail,
              ''Assignment with id '' @ assignment_uuid @ '' not found'',
              ''Internal server error''})
   \<and> (total_info_about_assignment assignment_uuid (world s) = (Inl (Raised mro msg), w')
      \<and> fst (get_total_info_assignment logger total_info_about_assignment assignment_uuid s)
           = Inl (HTTPException st d)
     \<longrightarrow> d \<in> {''Database error'', uuid_validation_detail,
              ''Assignment with id '' @ assignment_uuid @ '' not found'',
              ''Internal server error''})
   \<and> (service_add_elements element_list (world s) = (Inl (Raised mro msg), w')
      \<and> fst (add_elements service_add_elements element_list s) = Inl (HTTPException st d)
     \<longrightarrow> d = placement_detail)"
proof (intro conjI impI)
  assume "get_course_assignments course_uuid (world s) = (Inl (Raised mro msg), w')
      \<and> fst (get_assignments get_course_assignments course_uuid s) = Inl (HTTPException st d)"
  then show "d \<in> {''Database error'', uuid_validation_detail}"
    using get_assignments_detail [where get_course_assignments = get_course_assignments]
    by blast
next
  assume "only_teacher request (world s) = (Inr u, wt)
      \<and> service_create_assignment assignment_in wt = (Inl (Raised mro msg), ws)
      \<and> fst (create_assignment only_teacher service_create_assignment assignment_in request s)
           = Inl (HTTPException st d)"
  then show "if \<not> isinstance (Raised mro msg) UUIDValidationException
            \<and> \<not> isinstance (Raised mro msg) CourseNotFoundException
            \<and> (isinstance (Raised mro msg) AssignmentGameFieldException
                 \<or> isinstance (Raised mro msg) AssignmentPositionError)
         then d = msg
         else d \<in> {uuid_validation_detail,
                    ''Course with id '' @ course_id assignment_in
                      @ '' not found, can't create assignment'',
                    ''Database error''}"
    using create_assignment_detail
      [where only_teacher = only_teacher and service_create_assignment = service_create_assignment]
    by blast
next
  assume "only_teacher request (world s) = (Inr u, wt)
      \<and> service_delete_assignment assignment_uuid wt = (Inl (Raised mro msg), ws)
      \<and> fst (delete_assignment logger only_teacher service_delete_assignment
                assignment_uuid request s) = Inl (HTTPException st d)"
  then show "d \<in> {''Database error'', uuid_validation_detail,
              ''Assignment with id '' @ assignment_uuid @ '' not found'',
              ''Internal server error''}"
    using delete_assignment_detail
      [where only_teacher = only_teacher and service_delete_assignment = service_delete_assignment]
    by blast
next
  assume "total_info_about_assignment assignment_uuid (world s) = (Inl (Raised mro msg), w')
      \<and> fst (get_total_info_assignment logger total_info_about_assignment assignment_uuid s)
           = Inl (HTTPException st d)"
  then show "d \<in> {''Database error'', uuid_validation_detail,
              ''Assignment with id '' @ assignment_uuid @ '' not found'',
              ''Internal server error''}"
    using get_total_info_assignment_detail
      [where total_info_about_assignment = total_info_about_assignment]
    by blast
next
  assume "service_add_elements element_list (world s) = (Inl (Raised mro msg), w')
      \<and> fst (add_elements service_add_elements element_list s) = Inl (HTTPException st d)"
  then show "d = placement_detail"
    using add_elements_detail [where service_add_elements = service_add_elements]
    by blast
qed

theorem error_detail_fixed_outside_field_and_position_clauses_witness:
  "fst (get_assignments (raising db_error :: string \<Rightarrow> (string list, unit) collaborator)
          ''c1'' s0) = Inl (HTTPException 500 ''Database error'')
   \<and> ''Database error'' \<in> {''Database error'', uuid_validation_detail}
   \<and> fst (create_assignment teacher
          (raising (field_error ''width must be positive'')
             :: AssignmentCreate \<Rightarrow> (string option, unit) collaborator) payload () s0)
     = Inl (HTTPException 400 ''width must be positive'')
   \<and> fst (add_elements (raising (Raised [AssignmentElementFieldError] ''occupied'')
             :: GameElementCreate list \<Rightarrow> (unit, unit) collaborator) [element_at 0 0] s0)
     = Inl (HTTPException 400 placement_detail)"
proof -
  have g: "fst (get_assignments (raising db_error :: string \<Rightarrow> (string list, unit) collaborator)
          ''c1'' s0) = Inl (HTTPException 500 ''Database error'')"
    by (simp add: get_assignments_raises [where w' = "()"] raising_def db_error_def
          isinstance_def)
  have c: "fst (create_assignment teacher
          (raising (field_error ''width must be positive'')
             :: AssignmentCreate \<Rightarrow> (string option, unit) collaborator) payload () s0)
     = Inl (HTTPException 400 ''width must be positive'')"
    by (simp add: create_assignment_raises [where u = "()" and wt = "()" and ws = "()"]
          teacher_def raising_def field_error_def isinstance_def Let_def)
  have a: "fst (add_elements (raising (Raised [AssignmentElementFieldError] ''occupied'')
             :: GameElementCreate list \<Rightarrow> (unit, unit) collaborator) [element_at 0 0] s0)
     = Inl (HTTPException 400 placement_detail)"
    by (simp add: add_elements_raises [where w' = "()"] raising_def isinstance_def)
  from g error_detail_fixed_outside_field_and_position_clauses
      [where get_course_assignments =
               "raising db_error :: string \<Rightarrow> (string list, unit) collaborator"
         and course_uuid = "''c1''" and s = s0 and w' = "()"
         and mro = "[OtherClass ''OperationalError'', SQLAlchemyError, Exception_class]"
         and msg = "''connection refused''" and st = 500 and d = "''Database error''"
         and only_teacher = not_teacher and request = "()"
         and service_create_assignment =
               "raising db_error :: AssignmentCreate \<Rightarrow> (string option, unit) collaborator"
         and service_delete_assignment =
               "raising db_error :: string \<Rightarrow> (Assignment option, unit) collaborator"
         and total_info_about_assignment =
               "raising db_error :: string \<Rightarrow> ((unit \<times> unit) option, unit) collaborator"
         and service_add_elements =
               "raising db_error :: GameElementCreate list \<Rightarrow> (unit, unit) collaborator"]
  have "''Database error'' \<in> {''Database error'', uuid_validation_detail}"
    by (simp add: raising_def db_error_def)
  with g c a show ?thesis by blast
qed

text \<open>
  C2. The claim that every handler answers a \<^verbatim>\<open>SQLAlchemyError\<close> of its collaborator
  with 500 "Database error" fails: \<^verbatim>\<open>add_elements\<close>, \<^verbatim>\<open>get_actions\<close> and
  \<^verbatim>\<open>add_actions\<close> have no clause for it, and the exception leaves the handler.
\<close>

theorem storage_error_untranslated_counterexample:
  "isinstance db_error SQLAlchemyError
   \<and> fst (add_elements (raising db_error :: GameElementCreate list \<Rightarrow> (unit, unit) collaborator)
          [element_at 1 1] s0) = Inl db_error
   \<and> fst (get_actions (raising db_error :: string \<Rightarrow> (int list, unit) collaborator) ''a1'' s0)
       = Inl db_error
   \<and> fst (add_actions ((\<lambda>ids. raising db_error)
             :: int list \<Rightarrow> string \<Rightarrow> (unit, unit) collaborator) [1] ''a1'' s0)
       = Inl db_error
   \<and> db_error \<noteq> HTTPException 500 ''Database error''"
  by (simp add: add_elements_raises [where w' = "()"] get_actions_outcome [where w' = "()"]
        add_actions_outcome [where w' = "()"] raising_def db_error_def isinstance_def)

text \<open>
  C2, as amended. In \<^verbatim>\<open>get_assignments\<close>, \<^verbatim>\<open>delete_assignment\<close> and
  \<^verbatim>\<open>get_total_info_assignment\<close> a \<^verbatim>\<open>SQLAlchemyError\<close> raised by the service is answered
  with 500 "Database error"; in \<^verbatim>\<open>create_assignment\<close> it is too, when the exception is
  an instance of none of the four classes whose clauses come first.
\<close>

theorem storage_error_500_in_four_handlers:
  assumes "isinstance e SQLAlchemyError"
  shows "(get_course_assignments course_uuid (world s) = (Inl e, w') \<longrightarrow>
            fst (get_assignments get_course_assignments course_uuid s)
              = Inl (HTTPException 500 ''Database error''))
       \<and> (only_teacher request (world s) = (Inr u, wt)
            \<and> service_create_assignment assignment_in wt = (Inl e, ws)
            \<and> \<not> isinstance e UUIDValidationException
            \<and> \<not> isinstance e CourseNotFoundException
            \<and> \<not> isinstance e AssignmentGameFieldException
            \<and> \<not> isinstance e AssignmentPositionError \<longrightarrow>
            fst (create_assignment only_teacher service_create_assignment assignment_in request s)
              = Inl (HTTPException 500 ''Database error''))
       \<and> (only_teacher request (world s) = (Inr u, wt)
            \<and> service_delete_assignment assignment_uuid wt = (Inl e, ws) \<longrightarrow>
            fst (delete_assignment logger only_teacher service_delete_assignment
                   assignment_uuid request s)
              = Inl (HTTPException 500 ''Database error''))
       \<and> (total_info_about_assignment assignment_uuid (world s) = (Inl e, w') \<longrightarrow>
            fst (get_total_info_assignment logger total_info_about_assignment assignment_uuid s)
              = Inl (HTTPException 500 ''Database error''))"
  using assms
  by (simp add: get_assignments_raises create_assignment_raises delete_assignment_raises
        get_total_info_assignment_raises Let_def)

theorem storage_error_500_in_four_handlers_witness:
  "fst (get_assignments (raising db_error :: string \<Rightarrow> (string list, unit) collaborator)
          ''c1'' s0) = Inl (HTTPException 500 ''Database error'')
   \<and> fst (create_assignment teacher
          (raising db_error :: AssignmentCreate \<Rightarrow> (string option, unit) collaborator)
          payload () s0) = Inl (HTTPException 500 ''Database error'')
   \<and> fst (delete_assignment \<lparr>info_has_args_parameter = True\<rparr> teacher
          (raising db_error :: string \<Rightarrow> (Assignment option, unit) collaborator)
          ''a1'' () s0) = Inl (HTTPException 500 ''Database error'')
   \<and> fst (get_total_info_assignment \<lparr>info_has_args_parameter = True\<rparr>
          (raising db_error :: string \<Rightarrow> ((unit \<times> unit) option, unit) collaborator)
          ''a1'' s0) = Inl (HTTPException 500 ''Database error'')"
  using storage_error_500_in_four_handlers
      [where e = db_error and s = s0 and w' = "()" and u = "()" and wt = "()" and ws = "()"
         and get_course_assignments =
               "raising db_error :: string \<Rightarrow> (string list, unit) collaborator"
         and course_uuid = "''c1''"
         and only_teacher = teacher and request = "()" and assignment_in = payload
         and service_create_assignment =
               "raising db_error :: AssignmentCreate \<Rightarrow> (string option, unit) collaborator"
         and service_delete_assignment =
               "raising db_error :: string \<Rightarrow> (Assignment option, unit) collaborator"
         and assignment_uuid = "''a1''" and logger = "\<lparr>info_has_args_parameter = True\<rparr>"
         and total_info_about_assignment =
               "raising db_error :: string \<Rightarrow> ((unit \<times> unit) option, unit) collaborator"]
  by (simp add: teacher_def raising_def db_error_def isinstance_def)

text \<open>
  C3. The claim that every handler answers an otherwise unmapped
  \<^verbatim>\<open>AssignmentException\<close> with 500 and a log record fails: \<^verbatim>\<open>get_assignments\<close> and
  \<^verbatim>\<open>create_assignment\<close> have no clause for the class, the exception leaves the handler
  and no error is logged.
\<close>

theorem domain_error_propagates_counterexample:
  "isinstance domain_error AssignmentException
   \<and> get_assignments (raising domain_error :: string \<Rightarrow> (string list, unit) collaborator)
        ''c1'' s0
     = (Inl domain_error,
        s0\<lparr>events := [LogInfo (Str ''Try to get all assignments of course c1''),
                       Await ''AssignmentsService.get_course_assignments'']\<rparr>)
   \<and> fst (create_assignment teacher
          (raising domain_error :: AssignmentCreate \<Rightarrow> (string option, unit) collaborator)
          payload () s0) = Inl domain_error
   \<and> domain_error \<noteq> HTTPException 500 ''Internal server error''"
  by (simp add: get_assignments_raises [where w' = "()"]
        create_assignment_raises [where u = "()" and wt = "()" and ws = "()"]
        teacher_def raising_def domain_error_def isinstance_def s0_def Let_def)

text \<open>
  C3, as amended. In \<^verbatim>\<open>delete_assignment\<close> and \<^verbatim>\<open>get_total_info_assignment\<close> an
  \<^verbatim>\<open>AssignmentException\<close> that is an instance of none of the classes mapped before it
  (\<^verbatim>\<open>SQLAlchemyError\<close>, \<^verbatim>\<open>UUIDValidationException\<close>, \<^verbatim>\<open>AssignmentNotFoundException\<close>)
  is passed to \<^verbatim>\<open>logger.error\<close> and answered with 500 "Internal server error".
\<close>

theorem domain_error_500_in_delete_and_full_assignment:
  assumes "isinstance e AssignmentException"
    and "\<not> isinstance e SQLAlchemyError"
    and "\<not> isinstance e UUIDValidationException"
    and "\<not> isinstance e AssignmentNotFoundException"
  shows "(only_teacher request (world s) = (Inr u, wt)
            \<and> service_delete_assignment assignment_uuid wt = (Inl e, ws) \<longrightarrow>
            fst (delete_assignment logger only_teacher service_delete_assignment
                   assignment_uuid request s)
              = Inl (HTTPException 500 ''Internal server error'')
            \<and> last (events (snd (delete_assignment logger only_teacher
                 service_delete_assignment assignment_uuid request s))) = LogError (Exc e))
       \<and> (total_info_about_assignment assignment_uuid (world s) = (Inl e, w') \<longrightarrow>
            fst (get_total_info_assignment logger total_info_about_assignment assignment_uuid s)
              = Inl (HTTPException 500 ''Internal server error'')
            \<and> last (events (snd (get_total_info_assignment logger
                 total_info_about_assignment assignment_uuid s))) = LogError (Exc e))"
  using assms
  by (simp add: delete_assignment_raises get_total_info_assignment_raises Let_def)

theorem domain_error_500_in_delete_and_full_assignment_witness:
  "fst (delete_assignment \<lparr>info_has_args_parameter = True\<rparr> teacher
          (raising domain_error :: string \<Rightarrow> (Assignment option, unit) collaborator)
          ''a1'' () s0) = Inl (HTTPException 500 ''Internal server error'')
   \<and> last (events (snd (delete_assignment \<lparr>info_has_args_parameter = True\<rparr> teacher
          (raising domain_error :: string \<Rightarrow> (Assignment option, unit) collaborator)
          ''a1'' () s0))) = LogError (Exc domain_error)
   \<and> fst (get_total_info_assignment \<lparr>info_has_args_parameter = True\<rparr>
          (raising domain_error :: string \<Rightarrow> ((unit \<times> unit) option, unit) collaborator)
          ''a1'' s0) = Inl (HTTPException 500 ''Internal server error'')"
  using domain_error_500_in_delete_and_full_assignment
      [where e = domain_error and s = s0 and w' = "()" and u = "()" and wt = "()" and ws = "()"
         and only_teacher = teacher and request = "()"
         and service_delete_assignment =
               "raising domain_error :: string \<Rightarrow> (Assignment option, unit) collaborator"
         and assignment_uuid = "''a1''" and logger = "\<lparr>info_has_args_parameter = True\<rparr>"
         and total_info_about_assignment =
               "raising domain_error :: string \<Rightarrow> ((unit \<times> unit) option, unit) collaborator"]
  by (simp add: teacher_def raising_def domain_error_def isinstance_def)

text \<open>
  C4. \<^verbatim>\<open>GET /assignments/\<close>: when the service returns a list (the course UUID was
  accepted), a non-empty list is returned as the body, unchanged and so of the same
  length, with the response status set to 201; an empty list is answered with the HTTP
  error 404 "Assignment not found".
\<close>

theorem get_assignments_list_201_or_404:
  assumes "get_course_assignments course_uuid (world s) = (Inr assignments, w')"
  shows "(assignments \<noteq> [] \<longrightarrow>
            fst (get_assignments get_course_assignments course_uuid s) = Inr assignments
          \<and> status_code (response (snd (get_assignments get_course_assignments course_uuid s)))
              = Some 201)
       \<and> (assignments = [] \<longrightarrow>
            fst (get_assignments get_course_assignments course_uuid s)
              = Inl (HTTPException 404 ''Assignment not found''))"
  using assms by (simp add: get_assignments_returns)

theorem get_assignments_list_201_or_404_witness:
  "fst (get_assignments (returning [''hw1'', ''hw2'']) ''0123456789abcdef0123456789abcdef'' s0)
     = Inr [''hw1'', ''hw2'']
   \<and> status_code (response (snd (get_assignments (returning [''hw1'', ''hw2''])
        ''0123456789abcdef0123456789abcdef'' s0))) = Some 201
   \<and> fst (get_assignments (returning ([] :: string list)) ''0123456789abcdef0123456789abcdef'' s0)
     = Inl (HTTPException 404 ''Assignment not found'')"
  using get_assignments_list_201_or_404
      [where get_course_assignments = "returning [''hw1'', ''hw2'']"
         and course_uuid = "''0123456789abcdef0123456789abcdef''" and s = s0
         and assignments = "[''hw1'', ''hw2'']" and w' = "()"]
    get_assignments_list_201_or_404
      [where get_course_assignments = "returning ([] :: string list)"
         and course_uuid = "''0123456789abcdef0123456789abcdef''" and s = s0
         and assignments = "[]" and w' = "()"]
  by (simp add: returning_def)

text \<open>
  C5. \<^verbatim>\<open>POST /assignment/\<close>: when the caller passed the teacher check and the service
  raises a \<^verbatim>\<open>CourseNotFoundException\<close>, the answer is an HTTP error 400; its detail is
  the text built around \<^verbatim>\<open>assignment_in.course_id\<close>, the course UUID of the request
  body, unless the exception is also a \<^verbatim>\<open>UUIDValidationException\<close>, whose clause comes
  first.
\<close>

theorem create_assignment_course_not_found:
  assumes "only_teacher request (world s) = (Inr u, wt)"
    and "service_create_assignment assignment_in wt = (Inl e, ws)"
    and "isinstance e CourseNotFoundException"
  shows "(\<exists>d. fst (create_assignment only_teacher service_create_assignment assignment_in request s)
              = Inl (HTTPException 400 d))
       \<and> (\<not> isinstance e UUIDValidationException \<longrightarrow>
            fst (create_assignment only_teacher service_create_assignment assignment_in request s)
              = Inl (HTTPException 400
                  (''Course with id '' @ course_id assignment_in
                     @ '' not found, can't create assignment'')))"
  using assms by (simp add: create_assignment_raises Let_def)

theorem create_assignment_course_not_found_witness:
  "fst (create_assignment teacher
          (raising course_error :: AssignmentCreate \<Rightarrow> (string option, unit) collaborator)
          payload () s0)
     = Inl (HTTPException 400
         ''Course with id 0123456789abcdef0123456789abcdef not found, can't create assignment'')"
  using create_assignment_course_not_found
    [where only_teacher = teacher and request = "()" and s = s0 and u = "()" and wt = "()"
       and service_create_assignment =
         "raising course_error :: AssignmentCreate \<Rightarrow> (string option, unit) collaborator"
       and assignment_in = payload and e = course_error and ws = "()"]
  by (simp add: teacher_def raising_def course_error_def isinstance_def payload_def)

text \<open>
  C6. \<^verbatim>\<open>POST /assignment/delete/{assignment_id}\<close>, for a caller who passed the teacher
  check: an \<^verbatim>\<open>AssignmentNotFoundException\<close> of the service (not an instance of the two
  classes whose clauses come first) is answered with 404; a returned assignment is
  answered with status 201 and a detail text that contains its \<^verbatim>\<open>assignment_id\<close>.
\<close>

theorem delete_assignment_404_or_201:
  assumes "only_teacher request (world s) = (Inr u, wt)"
  shows "(service_delete_assignment assignment_uuid wt = (Inl e, ws)
            \<and> isinstance e AssignmentNotFoundException
            \<and> \<not> isinstance e SQLAlchemyError \<and> \<not> isinstance e UUIDValidationException \<longrightarrow>
          fst (delete_assignment logger only_teacher service_delete_assignment
                 assignment_uuid request s)
            = Inl (HTTPException 404 (''Assignment with id '' @ assignment_uuid @ '' not found'')))
       \<and> (service_delete_assignment assignment_uuid wt = (Inr (Some a), ws) \<longrightarrow>
          fst (delete_assignment logger only_teacher service_delete_assignment
                 assignment_uuid request s)
            = Inr [(''detail'',
                    ''Assigment with id '' @ assignment_id a @ '' successfully deleted'')]
          \<and> status_code (response (snd (delete_assignment logger only_teacher
                 service_delete_assignment assignment_uuid request s))) = Some 201)"
  using assms by (simp add: delete_assignment_raises delete_assignment_returns Let_def)

theorem delete_assignment_404_or_201_witness:
  "fst (delete_assignment \<lparr>info_has_args_parameter = False\<rparr> teacher
          (raising not_found_error :: string \<Rightarrow> (Assignment option, unit) collaborator)
          ''00000000000000000000000000000000'' () s0)
     = Inl (HTTPException 404 ''Assignment with id 00000000000000000000000000000000 not found'')
   \<and> fst (delete_assignment \<lparr>info_has_args_parameter = False\<rparr> teacher
          (returning (Some \<lparr>assignment_id = ''7f3a''\<rparr>)) ''7f3a'' () s0)
     = Inr [(''detail'', ''Assigment with id 7f3a successfully deleted'')]
   \<and> status_code (response (snd (delete_assignment \<lparr>info_has_args_parameter = False\<rparr> teacher
          (returning (Some \<lparr>assignment_id = ''7f3a''\<rparr>)) ''7f3a'' () s0))) = Some 201"
  using delete_assignment_404_or_201
      [where only_teacher = teacher and request = "()" and s = s0 and u = "()" and wt = "()"
         and service_delete_assignment =
           "raising not_found_error :: string \<Rightarrow> (Assignment option, unit) collaborator"
         and assignment_uuid = "''00000000000000000000000000000000''"
         and e = not_found_error and ws = "()"
         and logger = "\<lparr>info_has_args_parameter = False\<rparr>"]
    delete_assignment_404_or_201
      [where only_teacher = teacher and request = "()" and s = s0 and u = "()" and wt = "()"
         and service_delete_assignment = "returning (Some \<lparr>assignment_id = ''7f3a''\<rparr>)"
         and assignment_uuid = "''7f3a''" and a = "\<lparr>assignment_id = ''7f3a''\<rparr>" and ws = "()"
         and logger = "\<lparr>info_has_args_parameter = False\<rparr>"]
  by (simp add: teacher_def raising_def returning_def not_found_error_def isinstance_def)

text \<open>
  C7. \<^verbatim>\<open>POST /add_elements/\<close>: an \<^verbatim>\<open>AssignmentElementFieldError\<close> of the service is
  answered with 400 and the fixed placement text, a result of the service is returned as
  it is, and the handler does nothing to the world but the one service call. With the
  element service of the spec, a batch with an element that is out of bounds, on an
  occupied square or on the square of another element of the batch gets the 400 and
  leaves the database as it was; a batch of valid elements on distinct squares is
  returned and inserted as a whole.
\<close>

theorem add_elements_all_or_nothing:
  "(service_add_elements els (world t) = (Inl e, w') \<and> isinstance e AssignmentElementFieldError
      \<longrightarrow> add_elements service_add_elements els t
            = (Inl (HTTPException 400 placement_detail),
               t\<lparr>world := w', events := events t @ [Await ''AssignmentsService.add_elements'']\<rparr>))
   \<and> (service_add_elements els (world t) = (Inr r, w')
      \<longrightarrow> add_elements service_add_elements els t
            = (Inr r,
               t\<lparr>world := w', events := events t @ [Await ''AssignmentsService.add_elements'']\<rparr>))
   \<and> ((\<exists>el \<in> set element_list. \<not> in_bounds (world s) el \<or> occupied (world s) el)
        \<or> \<not> distinct (map square element_list)
      \<longrightarrow> add_elements AssignmentsService_add_elements element_list s
            = (Inl (HTTPException 400 placement_detail),
               s\<lparr>events := events s @ [Await ''AssignmentsService.add_elements'']\<rparr>))
   \<and> ((\<forall>el \<in> set element_list. in_bounds (world s) el \<and> \<not> occupied (world s) el)
        \<and> distinct (map square element_list)
      \<longrightarrow> add_elements AssignmentsService_add_elements element_list s
            = (Inr element_list,
               s\<lparr>world := (world s)\<lparr>placed := placed (world s) @ element_list\<rparr>,
                 events := events s @ [Await ''AssignmentsService.add_elements'']\<rparr>))"
proof (intro conjI impI)
  assume "service_add_elements els (world t) = (Inl e, w')
            \<and> isinstance e AssignmentElementFieldError"
  then show "add_elements service_add_elements els t
            = (Inl (HTTPException 400 placement_detail),
               t\<lparr>world := w', events := events t @ [Await ''AssignmentsService.add_elements'']\<rparr>)"
    by (simp add: add_elements_raises)
next
  assume "service_add_elements els (world t) = (Inr r, w')"
  then show "add_elements service_add_elements els t
            = (Inr r,
               t\<lparr>world := w', events := events t @ [Await ''AssignmentsService.add_elements'']\<rparr>)"
    by (simp add: add_elements_returns)
next
  assume "(\<exists>el \<in> set element_list. \<not> in_bounds (world s) el \<or> occupied (world s) el)
            \<or> \<not> distinct (map square element_list)"
  then obtain e where "AssignmentsService_add_elements element_list (world s) = (Inl e, world s)"
    and "isinstance e AssignmentElementFieldError"
    using service_add_elements_refuses by blast
  then show "add_elements AssignmentsService_add_elements element_list s
            = (Inl (HTTPException 400 placement_detail),
               s\<lparr>events := events s @ [Await ''AssignmentsService.add_elements'']\<rparr>)"
    by (simp add: add_elements_raises)
next
  assume "(\<forall>el \<in> set element_list. in_bounds (world s) el \<and> \<not> occupied (world s) el)
            \<and> distinct (map square element_list)"
  then have "AssignmentsService_add_elements element_list (world s)
           = (Inr element_list, (world s)\<lparr>placed := placed (world s) @ element_list\<rparr>)"
    by (simp add: service_add_elements_accepts)
  then show "add_elements AssignmentsService_add_elements element_list s
            = (Inr element_list,
               s\<lparr>world := (world s)\<lparr>placed := placed (world s) @ element_list\<rparr>,
                 events := events s @ [Await ''AssignmentsService.add_elements'']\<rparr>)"
    by (simp add: add_elements_returns)
qed

theorem add_elements_all_or_nothing_witness:
  "add_elements AssignmentsService_add_elements [element_at 1 1, element_at 0 0, element_at 2 2] g0
     = (Inl (HTTPException 400 placement_detail),
        g0\<lparr>events := [Await ''AssignmentsService.add_elements'']\<rparr>)
   \<and> add_elements AssignmentsService_add_elements [element_at 1 1, element_at 5 0] g0
     = (Inl (HTTPException 400 placement_detail),
        g0\<lparr>events := [Await ''AssignmentsService.add_elements'']\<rparr>)
   \<and> add_elements AssignmentsService_add_elements [element_at 1 1, element_at 2 2] g0
     = (Inr [element_at 1 1, element_at 2 2],
        g0\<lparr>world := db0\<lparr>placed := placed db0 @ [element_at 1 1, element_at 2 2]\<rparr>,
           events := [Await ''AssignmentsService.add_elements'']\<rparr>)"
  using add_elements_all_or_nothing
      [where s = g0 and element_list = "[element_at 1 1, element_at 0 0, element_at 2 2]"
         and service_add_elements = AssignmentsService_add_elements and t = g0
         and els = "[element_at 1 1, element_at 0 0, element_at 2 2]" and w' = db0
         and e = "Raised [AssignmentElementFieldError, AssignmentException, Exception_class]
                    ''element cannot be placed''"
         and r = "[]"]
    add_elements_all_or_nothing
      [where s = g0 and element_list = "[element_at 1 1, element_at 5 0]"
         and service_add_elements = AssignmentsService_add_elements and t = g0
         and els = "[element_at 1 1, element_at 5 0]" and w' = db0
         and e = "Raised [AssignmentElementFieldError, AssignmentException, Exception_class]
                    ''element cannot be placed''"
         and r = "[]"]
    add_elements_all_or_nothing
      [where s = g0 and element_list = "[element_at 1 1, element_at 2 2]"
         and service_add_elements = AssignmentsService_add_elements and t = g0
         and els = "[element_at 1 1, element_at 2 2]"
         and w' = "db0\<lparr>placed := placed db0 @ [element_at 1 1, element_at 2 2]\<rparr>"
         and e = "Raised [AssignmentElementFieldError, AssignmentException, Exception_class]
                    ''element cannot be placed''"
         and r = "[element_at 1 1, element_at 2 2]"]
  by (simp add: g0_def db0_def element_at_def in_bounds_def occupied_def square_def)

text \<open>
  C8. \<^verbatim>\<open>POST /assignment/\<close>: when \<^verbatim>\<open>only_teacher\<close> raises, its exception is the outcome,
  the only call made is the one of \<^verbatim>\<open>only_teacher\<close> and the world is the one it left,
  whatever the service is: the service is not called. When it returns, the service runs
  on the world \<^verbatim>\<open>only_teacher\<close> left, and the calls are, in this order,
  \<^verbatim>\<open>only_teacher\<close>, the log record and the service.
\<close>

theorem create_assignment_permission_before_service:
  "(only_teacher request (world s) = (Inl e, wt) \<longrightarrow>
      create_assignment only_teacher service_create_assignment assignment_in request s
        = (Inl e, s\<lparr>world := wt, events := events s @ [Await ''only_teacher'']\<rparr>))
   \<and> (only_teacher request (world s) = (Inr u, wt)
        \<and> service_create_assignment assignment_in wt = (r, ws) \<longrightarrow>
      world (snd (create_assignment only_teacher service_create_assignment
                    assignment_in request s)) = ws
      \<and> take 3 (drop (length (events s))
           (events (snd (create_assignment only_teacher service_create_assignment
                           assignment_in request s))))
        = [Await ''only_teacher'',
           LogInfo (Str (''Try to create assignment with data ''
              @ str_assignment_in assignment_in)),
           Await ''AssignmentsService.create_assignment''])"
proof (intro conjI impI)
  assume "only_teacher request (world s) = (Inl e, wt)"
  then show "create_assignment only_teacher service_create_assignment assignment_in request s
        = (Inl e, s\<lparr>world := wt, events := events s @ [Await ''only_teacher'']\<rparr>)"
    by (rule create_assignment_denied)
next
  assume a: "only_teacher request (world s) = (Inr u, wt)
        \<and> service_create_assignment assignment_in wt = (r, ws)"
  show "world (snd (create_assignment only_teacher service_create_assignment
                    assignment_in request s)) = ws"
  proof (cases r)
    case (Inl x)
    with a show ?thesis by (simp add: create_assignment_raises Let_def)
  next
    case (Inr v)
    with a show ?thesis by (simp add: create_assignment_returns split: option.split)
  qed
next
  assume a: "only_teacher request (world s) = (Inr u, wt)
        \<and> service_create_assignment assignment_in wt = (r, ws)"
  show "take 3 (drop (length (events s))
           (events (snd (create_assignment only_teacher service_create_assignment
                           assignment_in request s))))
        = [Await ''only_teacher'',
           LogInfo (Str (''Try to create assignment with data ''
              @ str_assignment_in assignment_in)),
           Await ''AssignmentsService.create_assignment'']"
  proof (cases r)
    case (Inl x)
    with a show ?thesis by (simp add: create_assignment_raises Let_def)
  next
    case (Inr v)
    with a show ?thesis by (simp add: create_assignment_returns split: option.split)
  qed
qed

theorem create_assignment_permission_before_service_witness:
  "create_assignment not_teacher
      (returning (Some ''created'') :: AssignmentCreate \<Rightarrow> (string option, unit) collaborator)
      payload () s0
     = (Inl (HTTPException 403 ''Forbidden''), s0\<lparr>events := [Await ''only_teacher'']\<rparr>)
   \<and> take 3 (events (snd (create_assignment teacher
        (returning (Some ''created'') :: AssignmentCreate \<Rightarrow> (string option, unit) collaborator)
        payload () s0)))
     = [Await ''only_teacher'',
        LogInfo (Str (''Try to create assignment with data '' @ str_assignment_in payload)),
        Await ''AssignmentsService.create_assignment'']"
  using create_assignment_permission_before_service
      [where only_teacher = not_teacher and request = "()" and s = s0 and wt = "()"
         and e = "HTTPException 403 ''Forbidden''" and assignment_in = payload
         and service_create_assignment =
           "returning (Some ''created'') :: AssignmentCreate \<Rightarrow> (string option, unit) collaborator"]
    create_assignment_permission_before_service
      [where only_teacher = teacher and request = "()" and s = s0 and wt = "()" and u = "()"
         and assignment_in = payload and r = "Inr (Some ''created'')" and ws = "()"
         and service_create_assignment =
           "returning (Some ''created'') :: AssignmentCreate \<Rightarrow> (string option, unit) collaborator"]
  by (simp add: teacher_def not_teacher_def returning_def s0_def)

text \<open>
  C9. \<^verbatim>\<open>get_actions\<close> and \<^verbatim>\<open>add_actions\<close> translate nothing: whatever exception the
  repository call raises leaves the handler as it is, after the one repository call and
  with no log record.
\<close>

theorem actions_handlers_propagate:
  "(get_assignment_actions assignment_uuid (world s) = (Inl e, w') \<longrightarrow>
      get_actions get_assignment_actions assignment_uuid s =
        (Inl e, s\<lparr>world := w',
                   events := events s @ [Await ''AssignmentRepo.get_assignment_actions'']\<rparr>))
   \<and> (repo_add_actions actions_id assignment_uuid (world s) = (Inl e, w') \<longrightarrow>
      add_actions repo_add_actions actions_id assignment_uuid s =
        (Inl e, s\<lparr>world := w', events := events s @ [Await ''AssignmentRepo.add_actions'']\<rparr>))"
  by (simp add: get_actions_outcome add_actions_outcome)

theorem actions_handlers_propagate_witness:
  "get_actions (raising db_error :: string \<Rightarrow> (int list, unit) collaborator) ''a1'' s0
     = (Inl db_error, s0\<lparr>events := [Await ''AssignmentRepo.get_assignment_actions'']\<rparr>)
   \<and> add_actions ((\<lambda>ids. raising db_error) :: int list \<Rightarrow> string \<Rightarrow> (bool, unit) collaborator)
        [1, 2] ''a1'' s0
     = (Inl db_error, s0\<lparr>events := [Await ''AssignmentRepo.add_actions'']\<rparr>)"
  using actions_handlers_propagate
    [where get_assignment_actions = "raising db_error :: string \<Rightarrow> (int list, unit) collaborator"
       and assignment_uuid = "''a1''" and s = s0 and e = db_error and w' = "()"
       and repo_add_actions = "(\<lambda>ids. raising db_error) :: int list \<Rightarrow> string \<Rightarrow> (bool, unit) collaborator"
       and actions_id = "[1, 2]"]
  by (simp add: raising_def s0_def)

text \<open>
  C10. \<^verbatim>\<open>POST /assignment/delete/{assignment_id}\<close> with a service that returns
  \<^verbatim>\<open>None\<close>: the format string of the log call before the final \<^verbatim>\<open>raise\<close> has no
  conversion, so \<^verbatim>\<open>%\<close> raises \<^verbatim>\<open>TypeError\<close>; the handler ends with that exception, not
  with the HTTP error 500 "Internal server error", and logs nothing after the service
  call.
\<close>

theorem delete_assignment_falsy_result_raises_TypeError:
  "fst (delete_assignment \<lparr>info_has_args_parameter = True\<rparr> teacher
          (returning None) ''0123456789abcdef0123456789abcdef'' () s0)
     = Inl (Raised [TypeError, Exception_class]
              ''not all arguments converted during string formatting'')
   \<and> events (snd (delete_assignment \<lparr>info_has_args_parameter = True\<rparr> teacher
          (returning None) ''0123456789abcdef0123456789abcdef'' () s0))
     = [Await ''only_teacher'',
        LogInfo (Str ''Try to delete assignment with uuid 0123456789abcdef0123456789abcdef''),
        Await ''AssignmentsService.delete_assignment'']"
  by (simp add: delete_assignment_returns [where u = "()" and wt = "()" and ws = "()"
        and assignment = None] teacher_def returning_def s0_def)

end
